theory Spec2Isabelle
  imports Complex_Main
begin

section \<open>Concurrency helpers of concordia (\<^verbatim>\<open>concordia/utils/concurrency.py\<close>)\<close>

text \<open>
  The module has two functions: the context manager \<^verbatim>\<open>executor\<close>, which wraps a
  \<^verbatim>\<open>concurrent.futures.ThreadPoolExecutor\<close> and chooses how to shut it down, and
  \<^verbatim>\<open>run_parallel\<close>, which maps a function over zipped argument sequences inside such
  an executor. Both are embedded below as state-passing functions over a trace of the
  calls made to the thread-pool library. The library itself (constructor, \<^verbatim>\<open>map\<close>,
  \<^verbatim>\<open>shutdown\<close>) is Python's standard library and is modelled by what it does for its
  caller; everything a scheduler or a clock decides is read from an environment record,
  so that every theorem quantified over the environment holds for every schedule.
\<close>

subsection \<open>Exceptions, library calls and the environment\<close>

text \<open>
  Python exceptions as values. \<open>Exception c m\<close> stands for any other exception class
  \<open>c\<close> raised with message \<open>m\<close>.
\<close>

datatype exn =
    ValueError string
  | TimeoutError
  | KeyboardInterrupt
  | Exception string string

text \<open>
  The calls made to the thread pool, in program order: the constructor with the worker
  count it was given, one submission per unit of work with the argument tuple handed to
  \<^verbatim>\<open>fn\<close>, and \<^verbatim>\<open>shutdown(wait, cancel_futures)\<close> with its two flags.
\<close>

datatype 'a event =
    Construct int
  | Submit "'a list"
  | Shutdown bool bool

text \<open>
  What the program does not decide: the number of CPUs (used by the library's default
  worker count), the time at which the unit of work submitted at position \<open>i\<close> finishes
  (measured from the call of \<^verbatim>\<open>map\<close>), and the exception, if any, that a call of
  \<^verbatim>\<open>shutdown(wait, cancel_futures)\<close> raises.
\<close>

record env =
  cpu_count :: nat
  finish_time :: "nat \<Rightarrow> real"
  shutdown_error :: "bool \<Rightarrow> bool \<Rightarrow> exn option"

record thread_pool =
  pool_workers :: int

subsection \<open>The thread-pool library as seen by its caller\<close>

text \<open>
  \<^verbatim>\<open>ThreadPoolExecutor(max_workers=n)\<close>: a missing worker count defaults to
  \<^verbatim>\<open>min(32, (os.cpu_count() or 1) + 4)\<close>; a count that is not positive raises
  \<^verbatim>\<open>ValueError("max_workers must be greater than 0")\<close>.
\<close>

definition ThreadPoolExecutor ::
  "env \<Rightarrow> int option \<Rightarrow> 'a event list \<Rightarrow> (exn + thread_pool) \<times> 'a event list" where
  "ThreadPoolExecutor env max_workers tr =
     (let n = (case max_workers of
                 None \<Rightarrow> min 32 (int (max 1 (cpu_count env)) + 4)
               | Some n \<Rightarrow> n)
      in (if n \<le> 0 then Inl (ValueError ''max_workers must be greater than 0'')
          else Inr \<lparr>pool_workers = n\<rparr>,
          tr @ [Construct n]))"

text \<open>
  \<^verbatim>\<open>pool.shutdown(wait, cancel_futures)\<close>: the call is recorded with its flags; whether
  it raises is the environment's choice.
\<close>

definition shutdown ::
  "env \<Rightarrow> thread_pool \<Rightarrow> bool \<Rightarrow> bool \<Rightarrow> 'a event list \<Rightarrow> (exn + unit) \<times> 'a event list" where
  "shutdown env pool wait cancel_futures tr =
     ((case shutdown_error env wait cancel_futures of
         None \<Rightarrow> Inr ()
       | Some e \<Rightarrow> Inl e),
      tr @ [Shutdown wait cancel_futures])"

text \<open>
  Python's \<^verbatim>\<open>zip(*iterables)\<close>: one tuple per position, until the first iterable that
  is exhausted; no tuple at all when there is no iterable.
\<close>

function zip_star :: "'a list list \<Rightarrow> 'a list list" where
  "zip_star iterables =
     (if iterables = [] \<or> [] \<in> set iterables then []
      else map hd iterables # zip_star (map tl iterables))"
  by pat_completeness auto
termination
  by (relation "measure (\<lambda>its. length (hd its))") (auto simp: hd_map neq_Nil_conv)

declare zip_star.simps [simp del]

text \<open>
  Whether the unit of work at position \<open>i\<close> has finished when the caller stops waiting
  for it: always without a timeout (the caller waits as long as it takes), within \<open>t\<close>
  seconds of the call with \<^verbatim>\<open>timeout=t\<close>.
\<close>

definition in_time :: "env \<Rightarrow> real option \<Rightarrow> nat \<Rightarrow> bool" where
  "in_time env timeout i =
     (case timeout of None \<Rightarrow> True | Some t \<Rightarrow> finish_time env i \<le> t)"

text \<open>
  The units of work, out of \<open>n\<close> submitted, that finish in time, in the order in which
  they finish.
\<close>

definition completed :: "env \<Rightarrow> real option \<Rightarrow> nat \<Rightarrow> nat list" where
  "completed env timeout n =
     sort_key (finish_time env) (filter (in_time env timeout) [0..<n])"

text \<open>
  \<^verbatim>\<open>pool.map(fn, *iterables, timeout=timeout)\<close>: every tuple of the zip is submitted at
  once, in input order. The workers store each outcome in the future of its unit as the
  unit finishes, that is in completion order. The iterator returned reads the futures
  in submission order; reading a future that has not finished in time raises
  \<^verbatim>\<open>TimeoutError\<close>, reading one that finished gives what \<^verbatim>\<open>fn\<close> returned or raised.
  The iterator is the list of what each \<^verbatim>\<open>next\<close> gives; the pool given to
  \<^verbatim>\<open>map\<close> is open, as it always is inside the \<^verbatim>\<open>with\<close> block of
  \<^verbatim>\<open>run_parallel\<close>.
\<close>

definition executor_map ::
  "env \<Rightarrow> thread_pool \<Rightarrow> ('a list \<Rightarrow> exn + 'b) \<Rightarrow> 'a list list \<Rightarrow> real option \<Rightarrow>
     'a event list \<Rightarrow> (exn + 'b) list \<times> 'a event list" where
  "executor_map env pool fn iterables timeout tr =
     (let units = zip_star iterables;
          futures = fold (\<lambda>i fs. fs(i \<mapsto> fn (units ! i)))
                      (completed env timeout (length units)) Map.empty
      in (map (\<lambda>i. case futures i of None \<Rightarrow> Inl TimeoutError | Some r \<Rightarrow> r)
            [0..<length units],
          tr @ map Submit units))"

text \<open>
  \<^verbatim>\<open>list(iterator)\<close>: consumes the iterator from the front and stops at the first
  \<^verbatim>\<open>next\<close> that raises.
\<close>

fun py_list :: "(exn + 'b) list \<Rightarrow> exn + 'b list" where
  "py_list [] = Inr []"
| "py_list (Inl e # rest) = Inl e"
| "py_list (Inr v # rest) =
     (case py_list rest of Inl e \<Rightarrow> Inl e | Inr vs \<Rightarrow> Inr (v # vs))"

text \<open>
  \<^verbatim>\<open>min(generator)\<close>: raises \<^verbatim>\<open>ValueError\<close> on an empty iterable (the message
  is the one of Python 3.12; earlier versions word it differently).
\<close>

definition py_min :: "int list \<Rightarrow> exn + int" where
  "py_min xs =
     (case xs of
        [] \<Rightarrow> Inl (ValueError ''min() iterable argument is empty'')
      | x # rest \<Rightarrow> Inr (fold min rest x))"

subsection \<open>The source: \<^verbatim>\<open>executor\<close> and \<^verbatim>\<open>run_parallel\<close>\<close>

text \<open>
  \<^verbatim>\<open>
  thread_executor = futures.ThreadPoolExecutor(**kwargs)
  try:
    yield thread_executor
  except BaseException:
    thread_executor.shutdown(wait=False, cancel_futures=True)
    raise
  else:
    thread_executor.shutdown()
  \<close>
  The block under \<^verbatim>\<open>with\<close> is the argument \<open>body\<close>. An exception raised by a
  \<^verbatim>\<open>shutdown\<close> call leaves the function in place of whatever was to follow. Of
  the keyword arguments forwarded to the constructor only \<^verbatim>\<open>max_workers\<close> is kept:
  it is the only one \<^verbatim>\<open>run_parallel\<close> passes.
\<close>

definition executor ::
  "env \<Rightarrow> int option \<Rightarrow>
     (thread_pool \<Rightarrow> 'a event list \<Rightarrow> (exn + 'r) \<times> 'a event list) \<Rightarrow>
     'a event list \<Rightarrow> (exn + 'r) \<times> 'a event list" where
  "executor env max_workers body tr =
     (case ThreadPoolExecutor env max_workers tr of
        (Inl e, tr1) \<Rightarrow> (Inl e, tr1)
      | (Inr thread_executor, tr1) \<Rightarrow>
          (case body thread_executor tr1 of
             (Inl e, tr2) \<Rightarrow>
               (case shutdown env thread_executor False True tr2 of
                  (Inl e2, tr3) \<Rightarrow> (Inl e2, tr3)
                | (Inr u, tr3) \<Rightarrow> (Inl e, tr3))
           | (Inr v, tr2) \<Rightarrow>
               (case shutdown env thread_executor True False tr2 of
                  (Inl e2, tr3) \<Rightarrow> (Inl e2, tr3)
                | (Inr u, tr3) \<Rightarrow> (Inr v, tr3))))"

text \<open>
  \<^verbatim>\<open>
  if max_workers is None:
    max_workers = min(len(arg) for arg in args)
  with executor(max_workers=max_workers) as executor_:
    results = executor_.map(fn, *args, timeout=timeout)
    return list(results)
  \<close>
\<close>

definition run_parallel ::
  "env \<Rightarrow> ('a list \<Rightarrow> exn + 'b) \<Rightarrow> 'a list list \<Rightarrow> real option \<Rightarrow> int option \<Rightarrow>
     'a event list \<Rightarrow> (exn + 'b list) \<times> 'a event list" where
  "run_parallel env fn args timeout max_workers tr =
     (case (case max_workers of
              None \<Rightarrow> py_min (map (\<lambda>arg. int (length arg)) args)
            | Some n \<Rightarrow> Inr n) of
        Inl e \<Rightarrow> (Inl e, tr)
      | Inr workers \<Rightarrow>
          executor env (Some workers)
            (\<lambda>pool tr1.
               case executor_map env pool fn args timeout tr1 of
                 (results, tr2) \<Rightarrow> (py_list results, tr2))
            tr)"

subsection \<open>Concrete inputs\<close>

text \<open>
  Environments and functions used to run the definitions on concrete calls. In
  \<open>later_first\<close> every shutdown succeeds and a unit submitted later finishes earlier;
  in \<open>slow_second\<close> the first unit finishes at once and every other one after five
  seconds; in \<open>interrupted\<close> every call of \<^verbatim>\<open>shutdown\<close> raises
  \<^verbatim>\<open>KeyboardInterrupt\<close>.
\<close>

definition later_first :: env where
  "later_first =
     \<lparr>cpu_count = 4, finish_time = (\<lambda>i. 10 - real i), shutdown_error = (\<lambda>wait cancel. None)\<rparr>"


definition interrupted :: env where
  "interrupted =
     \<lparr>cpu_count = 4, finish_time = (\<lambda>i. 0),
      shutdown_error = (\<lambda>wait cancel. Some KeyboardInterrupt)\<rparr>"

text \<open>
  \<^verbatim>\<open>lambda *xs: sum(xs)\<close>, which never raises, and a function of one argument
  that raises \<^verbatim>\<open>ValueError("zero")\<close> on \<open>0\<close>.
\<close>

definition sum_args :: "int list \<Rightarrow> exn + int" where
  "sum_args xs = Inr (sum_list xs)"


text \<open>A \<^verbatim>\<open>with\<close> block that raises at once, and one that returns at once.\<close>

definition raising_block ::
  "thread_pool \<Rightarrow> int event list \<Rightarrow> (exn + unit) \<times> int event list" where
  "raising_block pool tr = (Inl (ValueError ''primary''), tr)"

definition returning_block ::
  "thread_pool \<Rightarrow> int event list \<Rightarrow> (exn + unit) \<times> int event list" where
  "returning_block pool tr = (Inr (), tr)"

section \<open>Properties\<close>

subsection \<open>The library model and the two functions, unfolded\<close>


lemma length_zip_star:
  "iterables \<noteq> [] \<Longrightarrow> length (zip_star iterables) = Min (length ` set iterables)"
proof (induction iterables rule: zip_star.induct)
  case (1 iterables)
  show ?case
  proof (cases "[] \<in> set iterables")
    case True
    then have "0 \<in> length ` set iterables" by force
    then have "Min (length ` set iterables) = 0"
      by (metis List.finite_set Min_le finite_imageI le_zero_eq)
    with True show ?thesis by (simp add: zip_star.simps)
  next
    case False
    with 1 have ih: "length (zip_star (map tl iterables)) = Min (length ` set (map tl iterables))"
      by simp
    have pos: "\<forall>it \<in> set iterables. length it = Suc (length (tl it))"
      using False by (metis length_Suc_conv list.sel(3) neq_Nil_conv)
    have "length ` set iterables = Suc ` (length ` set (map tl iterables))"
      using pos by (force simp: image_iff)
    moreover have "Min (Suc ` (length ` set (map tl iterables))) = Suc (Min (length ` set (map tl iterables)))"
      using 1(2) by (intro mono_Min_commute [symmetric]) (auto simp: mono_def)
    ultimately show ?thesis using False 1(2) ih by (simp add: zip_star.simps)
  qed
qed

lemma zip_star_step:
  "iterables \<noteq> [] \<Longrightarrow> [] \<notin> set iterables \<Longrightarrow>
     zip_star iterables = map hd iterables # zip_star (map tl iterables)"
  by (subst zip_star.simps) simp

lemma zip_star_stop:
  "iterables = [] \<or> [] \<in> set iterables \<Longrightarrow> zip_star iterables = []"
  by (subst zip_star.simps) simp

lemma nth_tl_nonempty: "it \<noteq> [] \<Longrightarrow> tl it ! j = it ! Suc j"
  by (cases it) simp_all

lemma nth_zip_star:
  "i < length (zip_star iterables) \<Longrightarrow> zip_star iterables ! i = map (\<lambda>it. it ! i) iterables"
proof (induction iterables arbitrary: i rule: zip_star.induct)
  case (1 iterables)
  have ne: "iterables \<noteq> []" "[] \<notin> set iterables"
    using 1(2) zip_star_stop [of iterables] by auto
  note step = zip_star_step [OF ne]
  show ?case
  proof (cases i)
    case 0
    have "map hd iterables = map (\<lambda>it. it ! 0) iterables"
      using ne(2) by (intro map_cong refl hd_conv_nth) auto
    with 0 step show ?thesis by simp
  next
    case (Suc j)
    with 1(2) step have "j < length (zip_star (map tl iterables))"
      by simp
    with 1(1) ne have "zip_star (map tl iterables) ! j = map (\<lambda>it. it ! j) (map tl iterables)"
      by simp
    moreover have "map (\<lambda>it. it ! j) (map tl iterables) = map (\<lambda>it. it ! Suc j) iterables"
      using ne(2) by (auto intro: nth_tl_nonempty)
    ultimately show ?thesis using Suc step by simp
  qed
qed

lemma fold_futures:
  "fold (\<lambda>i fs. fs(i \<mapsto> g i)) order fs0 j = (if j \<in> set order then Some (g j) else fs0 j)"
  by (induction order arbitrary: fs0) auto

lemma set_completed:
  "set (completed env timeout n) =
     {i. i < n \<and> in_time env timeout i}"
  by (auto simp: completed_def)

lemma py_list_all_Inr: "py_list (map (\<lambda>x. Inr (f x)) xs) = Inr (map f xs)"
  by (induction xs) auto



lemma executor_map_results:
  "fst (executor_map env pool fn iterables timeout tr) =
     map (\<lambda>i. if in_time env timeout i then fn (zip_star iterables ! i) else Inl TimeoutError)
       [0..<length (zip_star iterables)]"
  by (simp add: executor_map_def Let_def fold_futures set_completed)

lemma executor_map_trace:
  "snd (executor_map env pool fn iterables timeout tr) = tr @ map Submit (zip_star iterables)"
  by (simp add: executor_map_def Let_def)

lemma ThreadPoolExecutor_positive:
  "0 < n \<Longrightarrow> ThreadPoolExecutor env (Some n) tr = (Inr \<lparr>pool_workers = n\<rparr>, tr @ [Construct n])"
  by (simp add: ThreadPoolExecutor_def)

lemma ThreadPoolExecutor_not_positive:
  "n \<le> 0 \<Longrightarrow> ThreadPoolExecutor env (Some n) tr =
     (Inl (ValueError ''max_workers must be greater than 0''), tr @ [Construct n])"
  by (simp add: ThreadPoolExecutor_def)

lemma executor_body_raises:
  "ThreadPoolExecutor env max_workers tr = (Inr pool, tr1) \<Longrightarrow> body pool tr1 = (Inl e, tr2) \<Longrightarrow>
     executor env max_workers body tr =
       (Inl (case shutdown_error env False True of None \<Rightarrow> e | Some e2 \<Rightarrow> e2),
        tr2 @ [Shutdown False True])"
  by (simp add: executor_def shutdown_def split: option.split)

lemma executor_body_returns:
  "ThreadPoolExecutor env max_workers tr = (Inr pool, tr1) \<Longrightarrow> body pool tr1 = (Inr v, tr2) \<Longrightarrow>
     executor env max_workers body tr =
       ((case shutdown_error env True False of None \<Rightarrow> Inr v | Some e2 \<Rightarrow> Inl e2),
        tr2 @ [Shutdown True False])"
  by (simp add: executor_def shutdown_def split: option.split)

lemma py_min_lengths:
  "args \<noteq> [] \<Longrightarrow>
     py_min (map (\<lambda>arg. int (length arg)) args) = Inr (int (Min (length ` set args)))"
proof -
  assume ne: "args \<noteq> []"
  then obtain a rest where args: "args = a # rest" by (cases args) auto
  have "fold min (map (\<lambda>arg. int (length arg)) rest) (int (length a))
          = Min (set (map (\<lambda>arg. int (length arg)) (a # rest)))"
    by (simp only: Min.set_eq_fold list.map)
  also have "\<dots> = Min (int ` (length ` set args))"
    by (simp add: args image_image)
  also have "\<dots> = int (Min (length ` set args))"
    using ne by (intro mono_Min_commute [symmetric]) (auto simp: mono_def)
  finally show ?thesis by (simp add: py_min_def args)
qed

lemma run_parallel_unset:
  "args \<noteq> [] \<Longrightarrow>
     run_parallel env fn args timeout None tr =
       run_parallel env fn args timeout (Some (int (Min (length ` set args)))) tr"
  by (simp add: run_parallel_def py_min_lengths)

lemma run_parallel_positive:
  assumes "0 < n"
  shows "run_parallel env fn args timeout (Some n) tr =
     (case py_list (map (\<lambda>i. if in_time env timeout i then fn (zip_star args ! i)
                               else Inl TimeoutError) [0..<length (zip_star args)]) of
        Inl e \<Rightarrow>
          (Inl (case shutdown_error env False True of None \<Rightarrow> e | Some e2 \<Rightarrow> e2),
           tr @ Construct n # map Submit (zip_star args) @ [Shutdown False True])
      | Inr vs \<Rightarrow>
          ((case shutdown_error env True False of None \<Rightarrow> Inr vs | Some e2 \<Rightarrow> Inl e2),
           tr @ Construct n # map Submit (zip_star args) @ [Shutdown True False]))"
proof -
  let ?body = "\<lambda>pool tr1. case executor_map env pool fn args timeout tr1 of
                 (results, tr2) \<Rightarrow> (py_list results, tr2)"
  let ?pool = "\<lparr>pool_workers = n\<rparr>"
  have body: "?body ?pool (tr @ [Construct n]) =
      (py_list (map (\<lambda>i. if in_time env timeout i then fn (zip_star args ! i)
                               else Inl TimeoutError) [0..<length (zip_star args)]),
       tr @ Construct n # map Submit (zip_star args))"
    using executor_map_results [of env ?pool fn args timeout "tr @ [Construct n]"]
      executor_map_trace [of env ?pool fn args timeout "tr @ [Construct n]"]
    by (simp add: case_prod_beta)
  have rp: "run_parallel env fn args timeout (Some n) tr = executor env (Some n) ?body tr"
    by (simp add: run_parallel_def)
  show ?thesis
  proof (cases "py_list (map (\<lambda>i. if in_time env timeout i then fn (zip_star args ! i)
                               else Inl TimeoutError) [0..<length (zip_star args)])")
    case (Inl e)
    with body have "?body ?pool (tr @ [Construct n]) = (Inl e, tr @ Construct n # map Submit (zip_star args))"
      by simp
    then have "executor env (Some n) ?body tr =
       (Inl (case shutdown_error env False True of None \<Rightarrow> e | Some e2 \<Rightarrow> e2),
        (tr @ Construct n # map Submit (zip_star args)) @ [Shutdown False True])"
      by (rule executor_body_raises [of env "Some n" tr ?pool "tr @ [Construct n]" ?body,
            OF ThreadPoolExecutor_positive [OF assms]])
    then show ?thesis using Inl rp by simp
  next
    case (Inr vs)
    with body have "?body ?pool (tr @ [Construct n]) = (Inr vs, tr @ Construct n # map Submit (zip_star args))"
      by simp
    then have "executor env (Some n) ?body tr =
       ((case shutdown_error env True False of None \<Rightarrow> Inr vs | Some e2 \<Rightarrow> Inl e2),
        (tr @ Construct n # map Submit (zip_star args)) @ [Shutdown True False])"
      by (rule executor_body_returns [of env "Some n" tr ?pool "tr @ [Construct n]" ?body,
            OF ThreadPoolExecutor_positive [OF assms]])
    then show ?thesis using Inr rp by simp
  qed
qed

lemma run_parallel_not_positive:
  "n \<le> 0 \<Longrightarrow> run_parallel env fn args timeout (Some n) tr =
     (Inl (ValueError ''max_workers must be greater than 0''), tr @ [Construct n])"
  by (simp add: run_parallel_def executor_def ThreadPoolExecutor_not_positive)

lemma Min_lengths_zero: "[] \<in> set args \<Longrightarrow> Min (length ` set args) = 0"
proof -
  assume "[] \<in> set args"
  then have "0 \<in> length ` set args" by force
  then have "Min (length ` set args) \<le> 0" by (intro Min_le) auto
  then show ?thesis by simp
qed

lemma run_parallel_constructs:
  "\<exists>rest. snd (run_parallel env fn args timeout (Some n) tr) = tr @ Construct n # rest"
proof (cases "0 < n")
  case True
  then show ?thesis
    by (simp add: run_parallel_positive split: sum.split)
next
  case False
  then show ?thesis by (simp add: run_parallel_not_positive)
qed

lemma run_parallel_all_return:
  assumes ne: "args \<noteq> []" "[] \<notin> set args"
    and ok: "\<forall>i<Min (length ` set args). fn (map (\<lambda>arg. arg ! i) args) = Inr (f (map (\<lambda>arg. arg ! i) args))"
    and sd: "shutdown_error env True False = None"
  shows "run_parallel env fn args None None tr =
     (Inr (map (\<lambda>i. f (map (\<lambda>arg. arg ! i) args)) [0..<Min (length ` set args)]),
      tr @ Construct (int (Min (length ` set args)))
         # map (\<lambda>i. Submit (map (\<lambda>arg. arg ! i) args)) [0..<Min (length ` set args)]
         @ [Shutdown True False])"
proof -
  let ?m = "Min (length ` set args)"
  have len: "length (zip_star args) = ?m" using ne(1) by (rule length_zip_star)
  have "?m \<in> length ` set args" using ne(1) by (intro Min_in) auto
  with ne(2) have pos: "0 < ?m" by force
  have units: "zip_star args = map (\<lambda>i. map (\<lambda>arg. arg ! i) args) [0..<?m]"
    by (rule nth_equalityI) (simp_all add: len nth_zip_star)
  have outs: "map (\<lambda>i. if in_time env None i then fn (zip_star args ! i) else Inl TimeoutError)
                [0..<length (zip_star args)]
              = map (\<lambda>i. Inr (f (map (\<lambda>arg. arg ! i) args))) [0..<?m]"
    using ok by (simp add: len in_time_def nth_zip_star)
  have "run_parallel env fn args None None tr = run_parallel env fn args None (Some (int ?m)) tr"
    using ne(1) by (rule run_parallel_unset)
  also have "\<dots> = (Inr (map (\<lambda>i. f (map (\<lambda>arg. arg ! i) args)) [0..<?m]),
      tr @ Construct (int ?m) # map Submit (zip_star args) @ [Shutdown True False])"
    using pos by (simp add: run_parallel_positive outs py_list_all_Inr sd)
  finally show ?thesis by (simp add: units comp_def)
qed


subsection \<open>Results of a successful parallel map\<close>

text \<open>
  Claim C1. A call \<^verbatim>\<open>run_parallel(fn, *seqs)\<close> with at least one sequence, all
  sequences of the same length \<open>L > 0\<close>, and a function that returns on every zipped
  tuple (the value of the pure function \<open>f\<close>) returns a sequence of length \<open>L\<close>
  whose \<open>i\<close>-th element is \<open>f\<close> applied to the tuple of the \<open>i\<close>-th elements. The
  environment, and with it the order in which the units of work finish, is arbitrary:
  the results are in input order whatever the completion order is. The library's
  graceful \<^verbatim>\<open>shutdown()\<close> is taken to complete.
\<close>

theorem run_parallel_input_order:
  assumes "args \<noteq> []" and "\<forall>arg\<in>set args. length arg = L" and "0 < L"
    and "\<forall>i<L. fn (map (\<lambda>arg. arg ! i) args) = Inr (f (map (\<lambda>arg. arg ! i) args))"
    and "shutdown_error env True False = None"
  shows "\<exists>results. fst (run_parallel env fn args None None tr) = Inr results \<and>
           length results = L \<and>
           (\<forall>i<L. results ! i = f (map (\<lambda>arg. arg ! i) args))"
proof -
  have "length ` set args = {L}" using assms(1,2) by (cases args) auto
  then have m: "Min (length ` set args) = L" by simp
  have "[] \<notin> set args" using assms(2,3) by auto
  from run_parallel_all_return [OF assms(1) this, of fn f env tr] assms(4,5) m
  have "fst (run_parallel env fn args None None tr) =
          Inr (map (\<lambda>i. f (map (\<lambda>arg. arg ! i) args)) [0..<L])"
    by simp
  then show ?thesis by simp
qed

theorem run_parallel_input_order_witness:
  "fst (run_parallel later_first sum_args [[1, 2, 3], [10, 20, 30]] None None []) = Inr [11, 22, 33]"
proof -
  have "\<exists>results. fst (run_parallel later_first sum_args [[1, 2, 3], [10, 20, 30]] None None []) = Inr results \<and>
           length results = 3 \<and>
           (\<forall>i<3. results ! i = sum_list (map (\<lambda>arg. arg ! i) [[1, 2, 3], [10, 20, 30]]))"
    by (rule run_parallel_input_order)
       (simp_all add: sum_args_def later_first_def)
  then obtain results where r: "fst (run_parallel later_first sum_args [[1, 2, 3], [10, 20, 30]] None None []) = Inr results"
    and l: "length results = 3"
    and e: "\<forall>i<3. results ! i = sum_list (map (\<lambda>arg. arg ! i) [[1, 2, 3], [10, 20, 30::int]])"
    by blast
  from e have "results ! 0 = 11" "results ! 1 = 22" "results ! 2 = 33"
    by simp_all
  with l have "results = [11, 22, 33]"
    by (intro nth_equalityI) (auto simp: less_Suc_eq numeral_3_eq_3 numeral_2_eq_2)
  with r show ?thesis by simp
qed

subsection \<open>Propagation of the first failure\<close>



subsection \<open>The two ways out of the executor's scope\<close>

text \<open>
  Claim C3. Once the pool exists, leaving the scope makes exactly one call of
  \<^verbatim>\<open>shutdown\<close>, after everything the block did: the graceful
  \<^verbatim>\<open>shutdown()\<close> (\<open>Shutdown True False\<close>: wait for the work, cancel nothing) when the
  block returns, and the abort \<^verbatim>\<open>shutdown(wait=False, cancel_futures=True)\<close>
  (\<open>Shutdown False True\<close>: no waiting, pending work cancelled) when the block
  raises, never the waiting one.
\<close>

theorem executor_exit_protocol:
  assumes "ThreadPoolExecutor env max_workers tr = (Inr pool, tr1)"
    and "body pool tr1 = (r, tr2)"
  shows "snd (executor env max_workers body tr) =
           tr2 @ [case r of Inl e \<Rightarrow> Shutdown False True | Inr v \<Rightarrow> Shutdown True False]"
proof (cases r)
  case (Inl e)
  with assms show ?thesis by (simp add: executor_body_raises)
next
  case (Inr v)
  with assms show ?thesis by (simp add: executor_body_returns)
qed

theorem executor_exit_protocol_witness:
  "snd (executor later_first (Some 2) raising_block []) = [Construct 2, Shutdown False True] \<and>
   snd (executor later_first (Some 2) returning_block []) = [Construct 2, Shutdown True False]"
proof -
  have c: "ThreadPoolExecutor later_first (Some 2) ([] :: int event list) =
             (Inr \<lparr>pool_workers = 2\<rparr>, [Construct 2])"
    by (simp add: ThreadPoolExecutor_def)
  have b1: "raising_block \<lparr>pool_workers = 2\<rparr> [Construct 2] = (Inl (ValueError ''primary''), [Construct 2])"
    by (simp add: raising_block_def)
  have b2: "returning_block \<lparr>pool_workers = 2\<rparr> [Construct 2] = (Inr (), [Construct 2])"
    by (simp add: returning_block_def)
  show ?thesis
    using executor_exit_protocol [where body = raising_block, OF c b1]
      executor_exit_protocol [where body = returning_block, OF c b2]
    by simp
qed

text \<open>
  Claim C4 says that an error raised by the abort shutdown itself is swallowed and the
  original error re-raised. The source calls \<^verbatim>\<open>shutdown\<close> inside the
  \<^verbatim>\<open>except\<close> clause with no handler around it, so \<^verbatim>\<open>raise\<close> is never reached when
  that call raises: the block raises \<^verbatim>\<open>ValueError("primary")\<close>, the shutdown is
  interrupted, and the caller sees \<^verbatim>\<open>KeyboardInterrupt\<close>.
\<close>

theorem executor_secondary_error_counterexample:
  "fst (raising_block \<lparr>pool_workers = 1\<rparr> [Construct 1]) = Inl (ValueError ''primary'') \<and>
   fst (executor interrupted (Some 1) raising_block []) = Inl KeyboardInterrupt"
  by (simp add: executor_def ThreadPoolExecutor_def shutdown_def raising_block_def interrupted_def)

text \<open>
  Claim C4, amended. When the block raises \<open>e\<close>, the caller receives \<open>e\<close> unchanged
  if the abort shutdown completes; an error raised by the abort shutdown is not
  swallowed and is what the caller receives instead.
\<close>

theorem executor_reraises:
  assumes "ThreadPoolExecutor env max_workers tr = (Inr pool, tr1)"
    and "body pool tr1 = (Inl e, tr2)"
  shows "fst (executor env max_workers body tr) =
           Inl (case shutdown_error env False True of None \<Rightarrow> e | Some e2 \<Rightarrow> e2)"
  using assms by (simp add: executor_body_raises)

theorem executor_reraises_witness:
  "fst (executor later_first (Some 2) raising_block []) = Inl (ValueError ''primary'')"
proof -
  have c: "ThreadPoolExecutor later_first (Some 2) ([] :: int event list) =
             (Inr \<lparr>pool_workers = 2\<rparr>, [Construct 2])"
    by (simp add: ThreadPoolExecutor_def)
  have b: "raising_block \<lparr>pool_workers = 2\<rparr> [Construct 2] = (Inl (ValueError ''primary''), [Construct 2])"
    by (simp add: raising_block_def)
  show ?thesis
    using executor_reraises [where body = raising_block, OF c b]
    by (simp add: later_first_def)
qed

subsection \<open>Timeouts\<close>




subsection \<open>Sequences of unequal lengths\<close>

text \<open>
  Claim C6 says that sequences of unequal lengths are zipped up to the shortest one and
  that the result has the length of the shortest. For sequences that are all non-empty
  this is \<open>run_parallel_all_return\<close> above: the submitted tuples are exactly those of
  the positions below the minimum length, and the result has that length. When the
  shortest sequence is empty the zip is empty and the documented result
  \<^verbatim>\<open>[fn(arg0, arg1, ...) for arg0, arg1, ... in zip(*args)]\<close> is the empty list, but
  the worker count computed from the lengths is \<open>0\<close> and the call raises.
\<close>

theorem run_parallel_empty_shortest_raises:
  "run_parallel later_first sum_args [[1, 2], []] None None [] =
     (Inl (ValueError ''max_workers must be greater than 0''), [Construct 0])"
  by (simp add: run_parallel_def py_min_def executor_def ThreadPoolExecutor_def)

subsection \<open>The worker count\<close>

text \<open>
  Claim C7. With \<^verbatim>\<open>max_workers\<close> unset and at least one sequence, the constructor
  of the pool is called with the length of the shortest sequence; with
  \<^verbatim>\<open>max_workers=n\<close> it is called with \<open>n\<close>. The call of the constructor is the
  first thing the function adds to the trace.
\<close>

theorem run_parallel_worker_count:
  "(args \<noteq> [] \<longrightarrow>
      (\<exists>rest. snd (run_parallel env fn args timeout None tr) =
                 tr @ Construct (int (Min (length ` set args))) # rest)) \<and>
   (\<exists>rest. snd (run_parallel env fn args timeout (Some n) tr) = tr @ Construct n # rest)"
  using run_parallel_constructs [of env fn args timeout _ tr]
  by (auto simp: run_parallel_unset)

theorem run_parallel_worker_count_witness:
  "(\<exists>rest. snd (run_parallel later_first sum_args [[1, 2, 3], [4, 5]] None None []) =
              Construct 2 # rest) \<and>
   (\<exists>rest. snd (run_parallel later_first sum_args [[1, 2, 3], [4, 5]] None (Some 7) []) =
              Construct 7 # rest)"
  using run_parallel_worker_count [of "[[1, 2, 3], [4, 5]]" later_first sum_args None "[]" 7]
  by simp

text \<open>
  Claim C8. A worker count that is zero or negative makes the creation of the pool fail
  with \<^verbatim>\<open>ValueError\<close>, the error Python uses for an invalid configuration value:
  \<^verbatim>\<open>executor\<close> raises it without running its block, and so does
  \<^verbatim>\<open>run_parallel\<close> when given such a \<^verbatim>\<open>max_workers\<close>; nothing is submitted and
  nothing is shut down.
\<close>

theorem pool_creation_rejects_non_positive:
  assumes "n \<le> 0"
  shows "executor env (Some n) body tr =
           (Inl (ValueError ''max_workers must be greater than 0''), tr @ [Construct n]) \<and>
         run_parallel env fn args timeout (Some n) tr2 =
           (Inl (ValueError ''max_workers must be greater than 0''), tr2 @ [Construct n])"
  using assms
  by (simp add: executor_def ThreadPoolExecutor_not_positive run_parallel_not_positive)

theorem pool_creation_rejects_non_positive_witness:
  "executor later_first (Some (- 3)) returning_block [] =
     (Inl (ValueError ''max_workers must be greater than 0''), [Construct (- 3)]) \<and>
   run_parallel later_first sum_args [[1, 2]] None (Some 0) [] =
     (Inl (ValueError ''max_workers must be greater than 0''), [Construct 0])"
proof -
  have a: "(- 3 :: int) \<le> 0" and b: "(0 :: int) \<le> 0" by simp_all
  from pool_creation_rejects_non_positive [OF a, of later_first returning_block "[]" sum_args "[[1,2]]" None "[]"]
    pool_creation_rejects_non_positive [OF b, of later_first returning_block "[]" sum_args "[[1,2]]" None "[]"]
  show ?thesis by simp
qed

text \<open>
  Claim C9. \<^verbatim>\<open>run_parallel(fn)\<close> with no sequence and \<^verbatim>\<open>max_workers\<close> unset
  raises the \<^verbatim>\<open>ValueError\<close> of \<^verbatim>\<open>min()\<close> on an empty iterable; the trace is
  unchanged, so no pool was asked for, and no result is returned.
\<close>

theorem run_parallel_no_sequences:
  "run_parallel env fn [] timeout None tr =
     (Inl (ValueError ''min() iterable argument is empty''), tr)"
  by (simp add: run_parallel_def py_min_def)

theorem run_parallel_no_sequences_witness:
  "run_parallel later_first sum_args [] None None [] =
     (Inl (ValueError ''min() iterable argument is empty''), [])"
  using run_parallel_no_sequences [of later_first sum_args None "[]"]
  by simp

text \<open>
  Claim C10. With \<^verbatim>\<open>max_workers\<close> unset and an empty sequence among the arguments,
  the computed worker count is \<open>0\<close>, the constructor of the pool rejects it with
  \<^verbatim>\<open>ValueError\<close>, and the call raises instead of returning an empty list; nothing
  is submitted, so \<^verbatim>\<open>fn\<close> is never called.
\<close>

theorem run_parallel_empty_sequence:
  assumes "[] \<in> set args"
  shows "run_parallel env fn args timeout None tr =
     (Inl (ValueError ''max_workers must be greater than 0''), tr @ [Construct 0])"
proof -
  from assms have "args \<noteq> []" by auto
  then have "run_parallel env fn args timeout None tr =
      run_parallel env fn args timeout (Some (int (Min (length ` set args)))) tr"
    by (rule run_parallel_unset)
  with assms show ?thesis
    by (simp add: Min_lengths_zero run_parallel_not_positive)
qed

theorem run_parallel_empty_sequence_witness:
  "run_parallel later_first sum_args [[1, 2, 3], []] (Some 1) None [] =
     (Inl (ValueError ''max_workers must be greater than 0''), [Construct 0])"
  using run_parallel_empty_sequence [of "[[1, 2, 3], []]" later_first sum_args "Some 1" "[]"]
  by simp

end
